theory Spec2Isabelle
  imports Complex_Main "HOL-Library.AList"
begin

section \<open>Simple tenant usage: data model\<close>

text \<open>
  The development embeds \<^verbatim>\<open>SimpleTenantUsageController\<close> of
  \<^verbatim>\<open>nova/api/openstack/compute/plugins/v3/simple_tenant_usage.py\<close>.

  A Python \<^verbatim>\<open>datetime\<close> is the number of microseconds since a fixed epoch: the
  controller only compares datetimes and subtracts them. A \<^verbatim>\<open>timedelta\<close> is kept
  in Python's normal form: \<open>0 \<le> microseconds < 10^6\<close>, \<open>0 \<le> seconds < 86400\<close>,
  and \<open>days\<close> carries the sign. Python floats are taken as exact real numbers:
  rounding is not part of the model.
\<close>

type_synonym datetime = int

record timedelta =
  days :: int
  seconds :: int
  microseconds :: int

definition datetime_sub :: "datetime \<Rightarrow> datetime \<Rightarrow> timedelta" where
  "datetime_sub a b =
     (let us = a - b
      in \<lparr>days = us div 86400000000,
          seconds = (us mod 86400000000) div 1000000,
          microseconds = us mod 1000000\<rparr>)"

text \<open>
  A timestamp field of an instance holds \<^verbatim>\<open>None\<close>, a datetime object, or a text
  still to be parsed (lines 41 to 49 of the source branch on \<^verbatim>\<open>isinstance\<close>).
\<close>

datatype timestamp_field = TsNone | TsDatetime datetime | TsText string

datatype explanation =
    StartInvalidFormat "string list"
  | StopInvalidFormat "string list"
  | StartAfterEnd

datatype error =
    HTTPBadRequest explanation
  | Forbidden
  | KeyError
  | ValueError
  | TypeError
  | IndexError

record flavor =
  fl_name :: string
  fl_memory_mb :: int
  fl_root_gb :: int
  fl_ephemeral_gb :: int
  fl_vcpus :: int

record instance_record =
  uuid :: string
  display_name :: string
  project_id :: string
  launched_at :: timestamp_field
  terminated_at :: timestamp_field
  vm_state :: string
  deleted :: bool
  instance_type_id :: int

type_synonym request_context = string

text \<open>
  The collaborators the controller calls and that live outside the file. Each is a
  parameter of the model:
  \<^item> \<open>parse_strtime s fmt\<close> is \<^verbatim>\<open>timeutils.parse_strtime\<close>; \<open>None\<close> is its
    \<^verbatim>\<open>ValueError\<close>;
  \<^item> \<open>utcnow k\<close> is what the \<open>k\<close>-th call of \<^verbatim>\<open>timeutils.utcnow()\<close> of a request
    returns;
  \<^item> \<open>extract_flavor i\<close> is \<^verbatim>\<open>flavors.extract_flavor\<close>; \<open>None\<close> is its
    \<^verbatim>\<open>KeyError\<close>;
  \<^item> \<open>get_instance_type ctx id\<close> is \<^verbatim>\<open>compute_api.get_instance_type\<close>; \<open>None\<close> is
    \<^verbatim>\<open>exception.FlavorNotFound\<close>;
  \<^item> \<open>get_active_by_window ctx start stop tenant\<close> is the instance lookup;
  \<^item> \<open>authorize_list\<close> and \<open>authorize_show\<close> are the two policy checks; \<open>False\<close>
    stands for the exception they raise.
\<close>

record collab =
  parse_strtime :: "string \<Rightarrow> string \<Rightarrow> datetime option"
  utcnow :: "nat \<Rightarrow> datetime"
  extract_flavor :: "instance_record \<Rightarrow> flavor option"
  get_instance_type :: "request_context \<Rightarrow> int \<Rightarrow> flavor option"
  get_active_by_window ::
    "request_context \<Rightarrow> datetime \<Rightarrow> datetime \<Rightarrow> string option \<Rightarrow> instance_record list"
  authorize_list :: "request_context \<Rightarrow> bool"
  authorize_show :: "request_context \<Rightarrow> string \<Rightarrow> bool"

section \<open>The hours calculator\<close>

text \<open>
  Lines 41 to 49: a text timestamp is parsed with the format
  \<^verbatim>\<open>%Y-%m-%d %H:%M:%S.%f\<close>; the \<^verbatim>\<open>ValueError\<close> of a text that does not parse
  leaves \<^verbatim>\<open>_hours_for\<close>.
\<close>

definition normalize_timestamp :: "collab \<Rightarrow> timestamp_field \<Rightarrow> error + datetime option" where
  "normalize_timestamp c f =
     (case f of
        TsNone \<Rightarrow> Inr None
      | TsDatetime d \<Rightarrow> Inr (Some d)
      | TsText s \<Rightarrow>
          (case parse_strtime c s ''%Y-%m-%d %H:%M:%S.%f'' of
             None \<Rightarrow> Inl ValueError
           | Some d \<Rightarrow> Inr (Some d)))"

text \<open>
  Lines 51 to 72, on the two normalised timestamps. A datetime object is always true in
  a Python condition, so \<^verbatim>\<open>if terminated_at\<close> tests for \<^verbatim>\<open>None\<close>.
\<close>

definition billable_hours :: "datetime option \<Rightarrow> datetime option \<Rightarrow> datetime \<Rightarrow> datetime \<Rightarrow> real" where
  "billable_hours launched terminated period_start period_stop =
     (if (case terminated of None \<Rightarrow> False | Some t \<Rightarrow> t < period_start) then 0
      else if (case launched of None \<Rightarrow> False | Some l \<Rightarrow> l > period_stop) then 0
      else
        (case launched of
           Some l \<Rightarrow>
             (let start = max l period_start;
                  stop = (case terminated of
                            Some t \<Rightarrow> min period_stop t
                          | None \<Rightarrow> period_stop);
                  dt = datetime_sub stop start;
                  secs = real_of_int (days dt * 3600 * 24 + seconds dt)
                           + real_of_int (microseconds dt) / 100000
              in secs / 3600)
         | None \<Rightarrow> 0))"

definition hours_for :: "collab \<Rightarrow> instance_record \<Rightarrow> datetime \<Rightarrow> datetime \<Rightarrow> error + real" where
  "hours_for c inst period_start period_stop =
     (case normalize_timestamp c (terminated_at inst) of
        Inl e \<Rightarrow> Inl e
      | Inr terminated \<Rightarrow>
          (case normalize_timestamp c (launched_at inst) of
             Inl e \<Rightarrow> Inl e
           | Inr launched \<Rightarrow>
               Inr (billable_hours launched terminated period_start period_stop)))"

text \<open>
  The interval that is charged when no guard of lines 51 to 55 fires, and the duration
  in hours of a span of microseconds.
\<close>

definition effective_start :: "datetime \<Rightarrow> datetime \<Rightarrow> datetime" where
  "effective_start l period_start = max l period_start"

definition effective_stop :: "datetime option \<Rightarrow> datetime \<Rightarrow> datetime" where
  "effective_stop terminated period_stop =
     (case terminated of Some t \<Rightarrow> min period_stop t | None \<Rightarrow> period_stop)"

definition hours_of_microseconds :: "int \<Rightarrow> real" where
  "hours_of_microseconds us = real_of_int us / 1000000 / 3600"

section \<open>The flavor resolver\<close>

text \<open>
  \<^verbatim>\<open>_get_flavor\<close>, lines 74 to 97. The cache \<^verbatim>\<open>flavors_cache\<close> is a dictionary
  that the function mutates; the model returns it. A \<^verbatim>\<open>KeyError\<close> of
  \<^verbatim>\<open>extract_flavor\<close> is raised again unless the instance is deleted. The result
  \<open>Inr None\<close> is the \<^verbatim>\<open>it_ref = None\<close> of line 95.
\<close>

definition get_flavor ::
  "collab \<Rightarrow> request_context \<Rightarrow> instance_record \<Rightarrow> (int \<rightharpoonup> flavor)
     \<Rightarrow> (error + flavor option) \<times> (int \<rightharpoonup> flavor)" where
  "get_flavor c ctx inst flavors_cache =
     (case extract_flavor c inst of
        Some fl \<Rightarrow> (Inr (Some fl), flavors_cache)
      | None \<Rightarrow>
          if \<not> deleted inst then (Inl KeyError, flavors_cache)
          else
            (let flavor_type = instance_type_id inst
             in case flavors_cache flavor_type of
                  Some fl \<Rightarrow> (Inr (Some fl), flavors_cache)
                | None \<Rightarrow>
                    (case get_instance_type c ctx flavor_type of
                       Some it_ref \<Rightarrow> (Inr (Some it_ref), flavors_cache(flavor_type \<mapsto> it_ref))
                     | None \<Rightarrow> (Inr None, flavors_cache))))"

section \<open>The usage aggregator\<close>

record server_usage =
  su_hours :: real
  su_instance_id :: string
  su_name :: string
  su_memory_mb :: int
  su_local_gb :: int
  su_vcpus :: int
  su_tenant_id :: string
  su_flavor :: string
  su_started_at :: timestamp_field
  su_ended_at :: timestamp_field
  su_state :: string
  su_uptime :: int

text \<open>
  A summary is the dictionary built at lines 149 to 158. The key
  \<^verbatim>\<open>server_usages\<close> exists only in detailed mode: \<open>None\<close> is its absence.
\<close>

record summary =
  tenant_id :: string
  server_usages :: "server_usage list option"
  total_local_gb_usage :: real
  total_vcpus_usage :: real
  total_memory_mb_usage :: real
  total_hours :: real
  sm_start :: datetime
  sm_stop :: datetime

text \<open>
  What a request leaves behind outside its return value: how many times the clock was
  read, and the calls of the instance lookup, in order, each with its window and
  tenant filter.
\<close>

record world =
  clock_reads :: nat
  lookups :: "(datetime \<times> datetime \<times> string option) list"

definition read_clock :: "collab \<Rightarrow> world \<Rightarrow> datetime \<times> world" where
  "read_clock c w = (utcnow c (clock_reads w), w\<lparr>clock_reads := Suc (clock_reads w)\<rparr>)"

text \<open>
  Truth value of a timestamp field in a Python condition (line 134), and the
  subtraction of two fields (lines 142 and 144): only two datetime objects subtract,
  anything else is a \<^verbatim>\<open>TypeError\<close>.
\<close>

definition truthy :: "timestamp_field \<Rightarrow> bool" where
  "truthy f = (case f of TsNone \<Rightarrow> False | TsDatetime d \<Rightarrow> True | TsText s \<Rightarrow> s \<noteq> [])"

definition field_sub :: "timestamp_field \<Rightarrow> timestamp_field \<Rightarrow> error + timedelta" where
  "field_sub a b =
     (case a of
        TsDatetime x \<Rightarrow>
          (case b of TsDatetime y \<Rightarrow> Inr (datetime_sub x y) | _ \<Rightarrow> Inl TypeError)
      | _ \<Rightarrow> Inl TypeError)"

text \<open>
  Lines 111 to 146 of the loop body: the \<^verbatim>\<open>info\<close> dictionary of one instance.
  \<open>Inr None\<close> is the \<^verbatim>\<open>continue\<close> of line 117.
\<close>

definition instance_usage ::
  "collab \<Rightarrow> request_context \<Rightarrow> datetime \<Rightarrow> datetime \<Rightarrow> instance_record
     \<Rightarrow> (int \<rightharpoonup> flavor) \<Rightarrow> world
     \<Rightarrow> (error + server_usage option) \<times> (int \<rightharpoonup> flavor) \<times> world" where
  "instance_usage c ctx period_start period_stop inst flavors_cache w =
     (case hours_for c inst period_start period_stop of
        Inl e \<Rightarrow> (Inl e, flavors_cache, w)
      | Inr hours \<Rightarrow>
          (case get_flavor c ctx inst flavors_cache of
             (Inl e, cache') \<Rightarrow> (Inl e, cache', w)
           | (Inr None, cache') \<Rightarrow> (Inr None, cache', w)
           | (Inr (Some fl), cache') \<Rightarrow>
               (let started_at = launched_at inst;
                    ended_at = terminated_at inst;
                    state = (if truthy ended_at then ''terminated'' else vm_state inst);
                    (now, w') = read_clock c w
                in case (if state = ''terminated'' then field_sub ended_at started_at
                         else field_sub (TsDatetime now) started_at) of
                     Inl e \<Rightarrow> (Inl e, cache', w')
                   | Inr delta \<Rightarrow>
                       (Inr (Some
                          \<lparr>su_hours = hours,
                           su_instance_id = uuid inst,
                           su_name = display_name inst,
                           su_memory_mb = fl_memory_mb fl,
                           su_local_gb = fl_root_gb fl + fl_ephemeral_gb fl,
                           su_vcpus = fl_vcpus fl,
                           su_tenant_id = project_id inst,
                           su_flavor = fl_name fl,
                           su_started_at = started_at,
                           su_ended_at = ended_at,
                           su_state = state,
                           su_uptime = days delta * 24 * 3600 + seconds delta\<rparr>),
                        cache', w'))))"

text \<open>
  Lines 148 to 169: the summary of the tenant is created when missing, then updated.
  The dictionary \<^verbatim>\<open>rval\<close> is an association list in insertion order.
\<close>

definition new_summary :: "string \<Rightarrow> bool \<Rightarrow> datetime \<Rightarrow> datetime \<Rightarrow> summary" where
  "new_summary tenant detailed period_start period_stop =
     \<lparr>tenant_id = tenant,
      server_usages = (if detailed then Some [] else None),
      total_local_gb_usage = 0,
      total_vcpus_usage = 0,
      total_memory_mb_usage = 0,
      total_hours = 0,
      sm_start = period_start,
      sm_stop = period_stop\<rparr>"

definition accumulate ::
  "datetime \<Rightarrow> datetime \<Rightarrow> bool \<Rightarrow> server_usage \<Rightarrow> (string \<times> summary) list
     \<Rightarrow> error + (string \<times> summary) list" where
  "accumulate period_start period_stop detailed info rval =
     (let sm = (case map_of rval (su_tenant_id info) of
                  None \<Rightarrow> new_summary (su_tenant_id info) detailed period_start period_stop
                | Some s \<Rightarrow> s);
          sm' = sm\<lparr>total_local_gb_usage :=
                      total_local_gb_usage sm + real_of_int (su_local_gb info) * su_hours info,
                    total_vcpus_usage :=
                      total_vcpus_usage sm + real_of_int (su_vcpus info) * su_hours info,
                    total_memory_mb_usage :=
                      total_memory_mb_usage sm + real_of_int (su_memory_mb info) * su_hours info,
                    total_hours := total_hours sm + su_hours info\<rparr>
      in if detailed then
           (case server_usages sm' of
              None \<Rightarrow> Inl KeyError
            | Some us \<Rightarrow>
                Inr (AList.update (su_tenant_id info) (sm'\<lparr>server_usages := Some (us @ [info])\<rparr>) rval))
         else Inr (AList.update (su_tenant_id info) sm' rval))"

fun usages_loop ::
  "collab \<Rightarrow> request_context \<Rightarrow> datetime \<Rightarrow> datetime \<Rightarrow> bool \<Rightarrow> instance_record list
     \<Rightarrow> (string \<times> summary) list \<Rightarrow> (int \<rightharpoonup> flavor) \<Rightarrow> world
     \<Rightarrow> (error + (string \<times> summary) list) \<times> world" where
  "usages_loop c ctx period_start period_stop detailed [] rval flavors_cache w = (Inr rval, w)"
| "usages_loop c ctx period_start period_stop detailed (inst # rest) rval flavors_cache w =
     (case instance_usage c ctx period_start period_stop inst flavors_cache w of
        (Inl e, cache', w') \<Rightarrow> (Inl e, w')
      | (Inr None, cache', w') \<Rightarrow>
          usages_loop c ctx period_start period_stop detailed rest rval cache' w'
      | (Inr (Some info), cache', w') \<Rightarrow>
          (case accumulate period_start period_stop detailed info rval of
             Inl e \<Rightarrow> (Inl e, w')
           | Inr rval' \<Rightarrow>
               usages_loop c ctx period_start period_stop detailed rest rval' cache' w'))"

text \<open>
  \<^verbatim>\<open>_tenant_usages_for_period\<close>, lines 99 to 171: the lookup is called once, then
  the loop runs from an empty \<^verbatim>\<open>rval\<close> and an empty flavor cache.
\<close>

definition tenant_usages_for_period ::
  "collab \<Rightarrow> request_context \<Rightarrow> datetime \<Rightarrow> datetime \<Rightarrow> string option \<Rightarrow> bool \<Rightarrow> world
     \<Rightarrow> (error + summary list) \<times> world" where
  "tenant_usages_for_period c ctx period_start period_stop tenant detailed w =
     (let instances = get_active_by_window c ctx period_start period_stop tenant;
          w1 = w\<lparr>lookups := lookups w @ [(period_start, period_stop, tenant)]\<rparr>
      in case usages_loop c ctx period_start period_stop detailed instances [] Map.empty w1 of
           (Inl e, w2) \<Rightarrow> (Inl e, w2)
         | (Inr rval, w2) \<Rightarrow> (Inr (map snd rval), w2))"

section \<open>The time-window parser and the request handlers\<close>

definition VALID_DATETIME_FORMAT :: "string list" where
  "VALID_DATETIME_FORMAT =
     [''%Y-%m-%dT%H:%M:%S'', ''%Y-%m-%dT%H:%M:%S.%f'', ''%Y-%m-%d %H:%M:%S.%f'']"

text \<open>The loop of lines 178 to 183: the first format that parses wins.\<close>

fun try_formats :: "collab \<Rightarrow> string \<Rightarrow> string list \<Rightarrow> datetime option" where
  "try_formats c dtstr [] = None"
| "try_formats c dtstr (fmt # fmts) =
     (case parse_strtime c dtstr fmt of
        Some d \<Rightarrow> Some d
      | None \<Rightarrow> try_formats c dtstr fmts)"

text \<open>
  \<^verbatim>\<open>_parse_datetime\<close>: a value of the query string is a text or absent, so the
  \<^verbatim>\<open>isinstance\<close> branch of line 176 has no case here.
\<close>

definition parse_datetime :: "collab \<Rightarrow> string option \<Rightarrow> world \<Rightarrow> datetime option \<times> world" where
  "parse_datetime c dtstr w =
     (case dtstr of
        None \<Rightarrow> (let (now, w') = read_clock c w in (Some now, w'))
      | Some s \<Rightarrow>
          if s = [] then (let (now, w') = read_clock c w in (Some now, w'))
          else (try_formats c s VALID_DATETIME_FORMAT, w))"

text \<open>
  A request carries its context and the dictionary that \<^verbatim>\<open>urlparse.parse_qs\<close>
  makes of the query string. \<open>query_first env k\<close> is \<^verbatim>\<open>env.get(k, [None])[0]\<close>.
\<close>

record request =
  nova_context :: request_context
  query :: "string \<rightharpoonup> string list"

definition query_first :: "(string \<rightharpoonup> string list) \<Rightarrow> string \<Rightarrow> error + string option" where
  "query_first env k =
     (case env k of
        None \<Rightarrow> Inr None
      | Some [] \<Rightarrow> Inl IndexError
      | Some (v # vs) \<Rightarrow> Inr (Some v))"

definition get_datetime_range ::
  "collab \<Rightarrow> request \<Rightarrow> world \<Rightarrow> (error + datetime \<times> datetime \<times> bool) \<times> world" where
  "get_datetime_range c req w =
     (case query_first (query req) ''start'' of
        Inl e \<Rightarrow> (Inl e, w)
      | Inr sv \<Rightarrow>
          (case parse_datetime c sv w of
             (None, w1) \<Rightarrow> (Inl (HTTPBadRequest (StartInvalidFormat VALID_DATETIME_FORMAT)), w1)
           | (Some period_start, w1) \<Rightarrow>
               (case query_first (query req) ''end'' of
                  Inl e \<Rightarrow> (Inl e, w1)
                | Inr ev \<Rightarrow>
                    (case parse_datetime c ev w1 of
                       (None, w2) \<Rightarrow>
                         (Inl (HTTPBadRequest (StopInvalidFormat VALID_DATETIME_FORMAT)), w2)
                     | (Some period_stop, w2) \<Rightarrow>
                         if \<not> period_start < period_stop
                         then (Inl (HTTPBadRequest StartAfterEnd), w2)
                         else
                           (case query_first (query req) ''detailed'' of
                              Inl e \<Rightarrow> (Inl e, w2)
                            | Inr dv \<Rightarrow>
                                (Inr (period_start, period_stop, dv = Some ''1''), w2))))))"

text \<open>Lines 215 to 217 and 233 to 235: the stop of the window is cut at the clock.\<close>

definition clip_stop :: "collab \<Rightarrow> datetime \<Rightarrow> world \<Rightarrow> datetime \<times> world" where
  "clip_stop c period_stop w =
     (let (now, w') = read_clock c w
      in (if period_stop > now then now else period_stop, w'))"

definition index :: "collab \<Rightarrow> request \<Rightarrow> world \<Rightarrow> (error + summary list) \<times> world" where
  "index c req w =
     (let ctx = nova_context req
      in if \<not> authorize_list c ctx then (Inl Forbidden, w)
         else
           (case get_datetime_range c req w of
              (Inl e, w1) \<Rightarrow> (Inl e, w1)
            | (Inr (period_start, period_stop, detailed), w1) \<Rightarrow>
                (let (period_stop', w2) = clip_stop c period_stop w1
                 in tenant_usages_for_period c ctx period_start period_stop' None detailed w2)))"

text \<open>
  \<^verbatim>\<open>show\<close> returns the first summary, or the empty dictionary of line 244, which is
  \<open>None\<close> here.
\<close>

definition show_usage ::
  "collab \<Rightarrow> request \<Rightarrow> string \<Rightarrow> world \<Rightarrow> (error + summary option) \<times> world" where
  "show_usage c req tenant w =
     (let ctx = nova_context req
      in if \<not> authorize_show c ctx tenant then (Inl Forbidden, w)
         else
           (case get_datetime_range c req w of
              (Inl e, w1) \<Rightarrow> (Inl e, w1)
            | (Inr (period_start, period_stop, ignore), w1) \<Rightarrow>
                (let (period_stop', w2) = clip_stop c period_stop w1
                 in case tenant_usages_for_period c ctx period_start period_stop'
                           (Some tenant) True w2 of
                      (Inl e, w3) \<Rightarrow> (Inl e, w3)
                    | (Inr usage, w3) \<Rightarrow>
                        (Inr (case usage of [] \<Rightarrow> None | u # us \<Rightarrow> Some u), w3))))"

section \<open>What a report is expected to contain\<close>

text \<open>
  The flavor of an instance, apart from the cache: the snapshot embedded in the record,
  or the catalog entry for a deleted instance without a snapshot. \<open>None\<close> for a
  deleted instance is the failed catalog lookup.
\<close>

definition resolved_flavor :: "collab \<Rightarrow> request_context \<Rightarrow> instance_record \<Rightarrow> flavor option" where
  "resolved_flavor c ctx inst =
     (case extract_flavor c inst of
        Some fl \<Rightarrow> Some fl
      | None \<Rightarrow> if deleted inst then get_instance_type c ctx (instance_type_id inst) else None)"

text \<open>
  \<open>usage_of c ctx start stop inst u\<close>: the entry \<open>u\<close> of a detail list reports the
  instance \<open>inst\<close>, with the hours of the hours calculator and the shape of the
  resolved flavor.
\<close>

definition usage_of ::
  "collab \<Rightarrow> request_context \<Rightarrow> datetime \<Rightarrow> datetime \<Rightarrow> instance_record \<Rightarrow> server_usage \<Rightarrow> bool" where
  "usage_of c ctx period_start period_stop inst u =
     (case resolved_flavor c ctx inst of
        None \<Rightarrow> False
      | Some fl \<Rightarrow>
          hours_for c inst period_start period_stop = Inr (su_hours u)
          \<and> su_instance_id u = uuid inst
          \<and> su_tenant_id u = project_id inst
          \<and> su_vcpus u = fl_vcpus fl
          \<and> su_memory_mb u = fl_memory_mb fl
          \<and> su_local_gb u = fl_root_gb fl + fl_ephemeral_gb fl)"

text \<open>
  Two invariants of the loop. The cache holds only what the catalog returned. After the
  entries \<open>emitted\<close> have been accumulated in detailed mode, \<^verbatim>\<open>rval\<close> has one summary
  for each tenant with an entry, the detail list of a summary is the tenant's entries in
  order, and each total is the sum over that list.
\<close>

definition cache_coherent :: "collab \<Rightarrow> request_context \<Rightarrow> (int \<rightharpoonup> flavor) \<Rightarrow> bool" where
  "cache_coherent c ctx flavors_cache =
     (\<forall>k fl. flavors_cache k = Some fl \<longrightarrow> get_instance_type c ctx k = Some fl)"

definition summary_of :: "string \<Rightarrow> server_usage list \<Rightarrow> summary \<Rightarrow> bool" where
  "summary_of tenant us sm =
     (tenant_id sm = tenant
      \<and> server_usages sm = Some us
      \<and> total_hours sm = sum_list (map su_hours us)
      \<and> total_vcpus_usage sm = sum_list (map (\<lambda>u. real_of_int (su_vcpus u) * su_hours u) us)
      \<and> total_memory_mb_usage sm
          = sum_list (map (\<lambda>u. real_of_int (su_memory_mb u) * su_hours u) us)
      \<and> total_local_gb_usage sm
          = sum_list (map (\<lambda>u. real_of_int (su_local_gb u) * su_hours u) us))"

definition rval_of :: "server_usage list \<Rightarrow> (string \<times> summary) list \<Rightarrow> bool" where
  "rval_of emitted rval =
     (distinct (map fst rval)
      \<and> (\<forall>t. case map_of rval t of
                None \<Rightarrow> filter (\<lambda>u. su_tenant_id u = t) emitted = []
              | Some sm \<Rightarrow>
                  filter (\<lambda>u. su_tenant_id u = t) emitted \<noteq> []
                  \<and> summary_of t (filter (\<lambda>u. su_tenant_id u = t) emitted) sm))"

text \<open>A request environment for concrete evaluation.\<close>

definition demo_flavor :: flavor where
  "demo_flavor =
     \<lparr>fl_name = ''m1.small'', fl_memory_mb = 2048, fl_root_gb = 20,
      fl_ephemeral_gb = 5, fl_vcpus = 2\<rparr>"

definition demo_collab :: collab where
  "demo_collab =
     \<lparr>parse_strtime =
        (\<lambda>s fmt. if s = ''epoch'' then Some 0
                 else if s = ''hour'' then Some 3600000000
                 else if s = ''late'' then Some 9000000000000
                 else None),
      utcnow = (\<lambda>k. 7200000000 + int k),
      extract_flavor = (\<lambda>i. if deleted i then None else Some demo_flavor),
      get_instance_type = (\<lambda>ctx ft. if ft = 1 then Some demo_flavor else None),
      get_active_by_window = (\<lambda>ctx start stop tenant. []),
      authorize_list = (\<lambda>ctx. True),
      authorize_show = (\<lambda>ctx tenant. True)\<rparr>"

definition demo_world :: world where
  "demo_world = \<lparr>clock_reads = 0, lookups = []\<rparr>"

definition demo_request :: "string \<Rightarrow> string \<Rightarrow> request" where
  "demo_request s e =
     \<lparr>nova_context = ''admin'', query = [''start'' \<mapsto> [s], ''end'' \<mapsto> [e]]\<rparr>"

definition demo_instance :: instance_record where
  "demo_instance =
     \<lparr>uuid = ''u1'', display_name = ''vm1'', project_id = ''t1'',
      launched_at = TsDatetime 0, terminated_at = TsNone,
      vm_state = ''active'', deleted = False, instance_type_id = 1\<rparr>"

text \<open>
  A lookup result with four instances: a running one of tenant \<open>t1\<close>, a running one of
  tenant \<open>t2\<close> launched half an hour into the window, and two deleted ones of tenant
  \<open>t1\<close> without an embedded flavor, of which only the second has a flavor the catalog
  knows.
\<close>

definition demo_instances :: "instance_record list" where
  "demo_instances =
     [demo_instance,
      demo_instance\<lparr>uuid := ''u2'', display_name := ''vm2'', project_id := ''t2'',
        launched_at := TsDatetime 1800000000\<rparr>,
      demo_instance\<lparr>uuid := ''u3'', display_name := ''vm3'',
        terminated_at := TsDatetime 1800000000, deleted := True, instance_type_id := 7\<rparr>,
      demo_instance\<lparr>uuid := ''u4'', display_name := ''vm4'',
        terminated_at := TsDatetime 1800000000, deleted := True\<rparr>]"

definition demo_busy_collab :: collab where
  "demo_busy_collab = demo_collab\<lparr>get_active_by_window := \<lambda>ctx a b t. demo_instances\<rparr>"

text \<open>The report of the aggregator on these instances for the window of the first hour.\<close>

definition demo_report :: "summary list" where
  "demo_report =
     [\<lparr>tenant_id = ''t1'',
       server_usages =
         Some
          [\<lparr>su_hours = 1, su_instance_id = ''u1'', su_name = ''vm1'',
            su_memory_mb = 2048, su_local_gb = 25, su_vcpus = 2,
            su_tenant_id = ''t1'', su_flavor = ''m1.small'',
            su_started_at = TsDatetime 0, su_ended_at = TsNone,
            su_state = ''active'', su_uptime = 7200\<rparr>,
           \<lparr>su_hours = 1 / 2, su_instance_id = ''u4'', su_name = ''vm4'',
            su_memory_mb = 2048, su_local_gb = 25, su_vcpus = 2,
            su_tenant_id = ''t1'', su_flavor = ''m1.small'',
            su_started_at = TsDatetime 0, su_ended_at = TsDatetime 1800000000,
            su_state = ''terminated'', su_uptime = 1800\<rparr>],
       total_local_gb_usage = 75 / 2, total_vcpus_usage = 3,
       total_memory_mb_usage = 3072, total_hours = 3 / 2,
       sm_start = 0, sm_stop = 3600000000\<rparr>,
      \<lparr>tenant_id = ''t2'',
       server_usages =
         Some
          [\<lparr>su_hours = 1 / 2, su_instance_id = ''u2'', su_name = ''vm2'',
            su_memory_mb = 2048, su_local_gb = 25, su_vcpus = 2,
            su_tenant_id = ''t2'', su_flavor = ''m1.small'',
            su_started_at = TsDatetime 1800000000, su_ended_at = TsNone,
            su_state = ''active'', su_uptime = 5400\<rparr>],
       total_local_gb_usage = 25 / 2, total_vcpus_usage = 1,
       total_memory_mb_usage = 1024, total_hours = 1 / 2,
       sm_start = 0, sm_stop = 3600000000\<rparr>]"

section \<open>Properties of the hours calculator\<close>

lemma datetime_sub_fields:
  "days (datetime_sub a b) = (a - b) div 86400000000"
  "seconds (datetime_sub a b) = ((a - b) mod 86400000000) div 1000000"
  "microseconds (datetime_sub a b) = (a - b) mod 1000000"
  by (simp_all add: datetime_sub_def Let_def)

lemma int_div_split_day: "(us::int) div 1000000 = (us div 86400000000) * 86400 + (us mod 86400000000) div 1000000"
proof -
  have "us div 1000000 = (us mod 86400000000 + ((us div 86400000000) * 86400) * 1000000) div 1000000"
    by simp
  also have "\<dots> = (us div 86400000000) * 86400 + (us mod 86400000000) div 1000000"
    by (rule div_mult_self1) simp
  finally show ?thesis .
qed

lemma timedelta_whole_seconds:
  "days (datetime_sub a b) * 86400 + seconds (datetime_sub a b) = (a - b) div 1000000"
  unfolding datetime_sub_fields using int_div_split_day [of "a - b"] by simp

lemma billable_hours_charged:
  assumes "\<forall>t. terminated = Some t \<longrightarrow> period_start \<le> t" and "l \<le> period_stop"
  shows "billable_hours (Some l) terminated period_start period_stop =
     (real_of_int (days (datetime_sub (effective_stop terminated period_stop) (effective_start l period_start)) * 86400
         + seconds (datetime_sub (effective_stop terminated period_stop) (effective_start l period_start)))
       + real_of_int (microseconds (datetime_sub (effective_stop terminated period_stop) (effective_start l period_start))) / 100000) / 3600"
  using assms
  by (cases terminated) (simp_all add: billable_hours_def effective_stop_def effective_start_def Let_def)

lemma hours_for_normalized:
  assumes "normalize_timestamp c (launched_at inst) = Inr launched"
    and "normalize_timestamp c (terminated_at inst) = Inr terminated"
  shows "hours_for c inst period_start period_stop =
           Inr (billable_hours launched terminated period_start period_stop)"
  using assms by (simp add: hours_for_def)

lemma real_seconds_split:
  "real_of_int us / 1000000 = real_of_int (us div 1000000) + real_of_int (us mod 1000000) / 1000000"
proof -
  have "us = 1000000 * (us div 1000000) + us mod 1000000" by simp
  then have "real_of_int us = 1000000 * real_of_int (us div 1000000) + real_of_int (us mod 1000000)"
    by (metis of_int_add of_int_mult of_int_numeral)
  then show ?thesis by simp
qed

text \<open>
  Claim C1. When the launch timestamp is present and no guard fires (the instance did
  not terminate before the window start and did not launch after the window stop), and
  the effective interval from \<open>max launch start\<close> to \<open>min stop termination\<close> (or to
  the window stop when the instance still runs) is \<open>d\<close> days, \<open>s\<close> seconds and \<open>m\<close>
  microseconds, the hours calculator returns \<open>(d * 86400 + s + m / 100000) / 3600\<close>.
  The seconds so composed are the true length of the interval in seconds plus nine more
  times its fractional second \<open>m / 1000000\<close>: the fraction counts ten times.
\<close>

theorem hours_for_formula:
  assumes "normalize_timestamp c (launched_at inst) = Inr (Some l)"
    and "normalize_timestamp c (terminated_at inst) = Inr terminated"
    and "\<forall>t. terminated = Some t \<longrightarrow> period_start \<le> t"
    and "l \<le> period_stop"
    and "datetime_sub (effective_stop terminated period_stop) (effective_start l period_start)
           = \<lparr>days = d, seconds = s, microseconds = m\<rparr>"
  shows "hours_for c inst period_start period_stop
           = Inr ((real_of_int (d * 86400 + s) + real_of_int m / 100000) / 3600)
         \<and> real_of_int (d * 86400 + s) + real_of_int m / 100000
           = real_of_int (effective_stop terminated period_stop - effective_start l period_start) / 1000000
               + 9 * (real_of_int m / 1000000)"
proof
  show "hours_for c inst period_start period_stop
           = Inr ((real_of_int (d * 86400 + s) + real_of_int m / 100000) / 3600)"
    using assms(5)
    by (simp add: hours_for_normalized [OF assms(1,2)] billable_hours_charged [OF assms(3,4)])
next
  let ?us = "effective_stop terminated period_stop - effective_start l period_start"
  have w: "d * 86400 + s = ?us div 1000000"
    using timedelta_whole_seconds [of "effective_stop terminated period_stop" "effective_start l period_start"]
      assms(5) by simp
  have m: "m = ?us mod 1000000"
    using datetime_sub_fields(3) [of "effective_stop terminated period_stop" "effective_start l period_start"]
      assms(5) by simp
  show "real_of_int (d * 86400 + s) + real_of_int m / 100000
           = real_of_int ?us / 1000000 + 9 * (real_of_int m / 1000000)"
    unfolding w real_seconds_split [of ?us] m by simp
qed

text \<open>
  Claim C3. For an instance whose timestamp fields hold timestamps, the hours calculator
  returns 0 when the termination timestamp is before the window start, or the launch
  timestamp is after the window stop, or the launch timestamp is absent.
\<close>

theorem hours_for_zero:
  assumes "normalize_timestamp c (launched_at inst) = Inr launched"
    and "normalize_timestamp c (terminated_at inst) = Inr terminated"
    and "(\<exists>t. terminated = Some t \<and> t < period_start)
         \<or> (\<exists>l. launched = Some l \<and> period_stop < l)
         \<or> launched = None"
  shows "hours_for c inst period_start period_stop = Inr 0"
  using assms(3)
  by (auto simp: hours_for_normalized [OF assms(1,2)] billable_hours_def split: option.splits)

lemma effective_interval_nonneg:
  assumes "\<forall>t. terminated = Some t \<longrightarrow> period_start \<le> t \<and> l \<le> t"
    and "l \<le> period_stop" and "period_start < period_stop"
  shows "0 \<le> effective_stop terminated period_stop - effective_start l period_start"
  using assms by (cases terminated) (auto simp: effective_stop_def effective_start_def)

lemma billable_hours_nonneg:
  assumes "\<forall>l t. launched = Some l \<and> terminated = Some t \<longrightarrow> l \<le> t"
    and "period_start < period_stop"
  shows "0 \<le> billable_hours launched terminated period_start period_stop"
proof (cases launched)
  case None
  then show ?thesis by (simp add: billable_hours_def)
next
  case (Some l)
  show ?thesis
  proof (cases "(\<exists>t. terminated = Some t \<and> t < period_start) \<or> period_stop < l")
    case True
    then show ?thesis using Some by (auto simp: billable_hours_def split: option.splits)
  next
    case False
    then have g: "\<forall>t. terminated = Some t \<longrightarrow> period_start \<le> t" "l \<le> period_stop"
      by auto
    let ?us = "effective_stop terminated period_stop - effective_start l period_start"
    have "0 \<le> ?us"
      using effective_interval_nonneg [of terminated period_start l period_stop] g assms Some
      by auto
    then have "0 \<le> ?us div 1000000" and "0 \<le> ?us mod 1000000"
      by simp_all
    then show ?thesis
      unfolding Some billable_hours_charged [OF g] timedelta_whole_seconds datetime_sub_fields
      by simp
  qed
qed

text \<open>
  Claim C9. When the launch timestamp, if present, is not after the termination
  timestamp, if present, and the window start is strictly before the window stop, the
  hours calculator returns a value and that value is not negative.
\<close>

theorem hours_for_nonneg:
  assumes "normalize_timestamp c (launched_at inst) = Inr launched"
    and "normalize_timestamp c (terminated_at inst) = Inr terminated"
    and "\<forall>l t. launched = Some l \<and> terminated = Some t \<longrightarrow> l \<le> t"
    and "period_start < period_stop"
  shows "\<exists>h. hours_for c inst period_start period_stop = Inr h \<and> 0 \<le> h"
  using billable_hours_nonneg [OF assms(3,4)]
  by (simp add: hours_for_normalized [OF assms(1,2)])


theorem hours_for_formula_witness:
  "hours_for demo_collab
     (demo_instance\<lparr>launched_at := TsText ''epoch'', terminated_at := TsDatetime 90000500000\<rparr>)
     0 200000000000 = Inr (18001 / 720)"
proof -
  let ?i = "demo_instance\<lparr>launched_at := TsText ''epoch'', terminated_at := TsDatetime 90000500000\<rparr>"
  have 1: "normalize_timestamp demo_collab (launched_at ?i) = Inr (Some 0)"
    by (simp add: normalize_timestamp_def demo_collab_def demo_instance_def)
  have 2: "normalize_timestamp demo_collab (terminated_at ?i) = Inr (Some 90000500000)"
    by (simp add: normalize_timestamp_def demo_instance_def)
  have 3: "\<forall>t. Some (90000500000::int) = Some t \<longrightarrow> (0::int) \<le> t"
    by simp
  have 4: "(0::int) \<le> 200000000000"
    by simp
  have 5: "datetime_sub (effective_stop (Some 90000500000) 200000000000) (effective_start 0 0)
             = \<lparr>days = 1, seconds = 3600, microseconds = 500000\<rparr>"
    by (simp add: datetime_sub_def effective_stop_def effective_start_def)
  show ?thesis
    using hours_for_formula [OF 1 2 3 4 5] by simp
qed

theorem hours_for_zero_witness:
  "hours_for demo_collab (demo_instance\<lparr>terminated_at := TsDatetime 5\<rparr>) 10 20 = Inr 0
   \<and> hours_for demo_collab (demo_instance\<lparr>launched_at := TsDatetime 30\<rparr>) 10 20 = Inr 0
   \<and> hours_for demo_collab (demo_instance\<lparr>launched_at := TsNone\<rparr>) 10 20 = Inr 0"
proof -
  have a: "hours_for demo_collab (demo_instance\<lparr>terminated_at := TsDatetime 5\<rparr>) 10 20 = Inr 0"
    by (rule hours_for_zero [where launched = "Some 0" and terminated = "Some 5"])
       (simp_all add: normalize_timestamp_def demo_instance_def)
  have b: "hours_for demo_collab (demo_instance\<lparr>launched_at := TsDatetime 30\<rparr>) 10 20 = Inr 0"
    by (rule hours_for_zero [where launched = "Some 30" and terminated = None])
       (simp_all add: normalize_timestamp_def demo_instance_def)
  have c: "hours_for demo_collab (demo_instance\<lparr>launched_at := TsNone\<rparr>) 10 20 = Inr 0"
    by (rule hours_for_zero [where launched = None and terminated = None])
       (simp_all add: normalize_timestamp_def demo_instance_def)
  from a b c show ?thesis by simp
qed

theorem hours_for_nonneg_witness:
  "\<exists>h. hours_for demo_collab (demo_instance\<lparr>terminated_at := TsDatetime 3600000000\<rparr>)
          0 7200000000 = Inr h \<and> 0 \<le> h"
  by (rule hours_for_nonneg [where launched = "Some 0" and terminated = "Some 3600000000"])
     (simp_all add: normalize_timestamp_def demo_instance_def)

text \<open>
  An instance launched at or before the window start and never terminated is charged
  the window duration plus nine times the fractional second of that duration: the two
  agree exactly when the window lasts a whole number of seconds.
\<close>

lemma hours_for_whole_window:
  assumes "normalize_timestamp c (launched_at inst) = Inr (Some l)"
    and "normalize_timestamp c (terminated_at inst) = Inr None"
    and "l \<le> period_start" and "period_start \<le> period_stop"
  shows "hours_for c inst period_start period_stop
           = Inr (hours_of_microseconds (period_stop - period_start)
                  + 9 * real_of_int ((period_stop - period_start) mod 1000000) / 1000000 / 3600)"
proof -
  have g: "\<forall>t. (None :: datetime option) = Some t \<longrightarrow> period_start \<le> t" "l \<le> period_stop"
    using assms by auto
  have e: "effective_stop None period_stop = period_stop" "effective_start l period_start = period_start"
    using assms by (simp_all add: effective_stop_def effective_start_def)
  show ?thesis
    unfolding hours_for_normalized [OF assms(1,2)] billable_hours_charged [OF g] e
      timedelta_whole_seconds datetime_sub_fields(3) hours_of_microseconds_def
      real_seconds_split [of "period_stop - period_start"]
    by (simp add: field_simps)
qed

text \<open>
  Claim C4. An instance launched at or before the window start with no termination
  timestamp should be charged exactly the window duration in hours. For the window
  from 0 to half a second the calculator returns \<open>1 / 720\<close> of an hour, ten times the
  duration \<open>1 / 7200\<close> of the window: the divisor \<open>100000\<close> of line 67 is not the
  number of microseconds in a second.
\<close>

theorem hours_for_whole_window_fractional:
  "hours_for demo_collab demo_instance 0 500000 = Inr (1 / 720)
   \<and> hours_of_microseconds (500000 - 0) = 1 / 7200"
  by (simp add: hours_for_def normalize_timestamp_def demo_instance_def billable_hours_def
      datetime_sub_def hours_of_microseconds_def)


section \<open>Properties of the request handlers\<close>

lemma read_clock_lookups: "read_clock c w = (now, w') \<Longrightarrow> lookups w' = lookups w"
  by (auto simp: read_clock_def)

lemma parse_datetime_lookups: "parse_datetime c dtstr w = (r, w') \<Longrightarrow> lookups w' = lookups w"
  by (auto simp: parse_datetime_def read_clock_def split: option.splits if_splits)

lemma get_datetime_range_lookups:
  "get_datetime_range c req w = (r, w') \<Longrightarrow> lookups w' = lookups w"
  unfolding get_datetime_range_def
  by (auto split: sum.splits prod.splits option.splits if_splits
      dest!: parse_datetime_lookups)

lemma instance_usage_lookups:
  "instance_usage c ctx ps pe inst cache w = (r, cache', w') \<Longrightarrow> lookups w' = lookups w"
  unfolding instance_usage_def
  by (auto simp: read_clock_def Let_def split: sum.splits prod.splits option.splits if_splits)

lemma usages_loop_lookups:
  "usages_loop c ctx ps pe d insts rval cache w = (r, w') \<Longrightarrow> lookups w' = lookups w"
proof (induction insts arbitrary: rval cache w)
  case Nil
  then show ?case by simp
next
  case (Cons inst rest)
  obtain r1 cache1 w1 where iu: "instance_usage c ctx ps pe inst cache w = (r1, cache1, w1)"
    by (cases "instance_usage c ctx ps pe inst cache w") auto
  have w1: "lookups w1 = lookups w"
    using instance_usage_lookups [OF iu] .
  show ?case
    using Cons.prems Cons.IH w1
    by (auto simp: iu split: sum.splits option.splits)
qed

lemma tenant_usages_for_period_lookups:
  "tenant_usages_for_period c ctx ps pe tenant d w = (r, w')
     \<Longrightarrow> lookups w' = lookups w @ [(ps, pe, tenant)]"
  unfolding tenant_usages_for_period_def Let_def
  by (auto split: prod.splits sum.splits dest!: usages_loop_lookups)


text \<open>
  Claim C6. When the start and the end of a request both parse and the start is not
  strictly before the end, an authorised \<^verbatim>\<open>index\<close> or \<^verbatim>\<open>show\<close> request fails with
  the bad-request error "start after end", and the instance lookup has not been called:
  the log of lookups is the one the request started with.
\<close>

theorem start_not_before_end_rejected:
  assumes "query_first (query req) ''start'' = Inr sv"
    and "parse_datetime c sv w = (Some period_start, w1)"
    and "query_first (query req) ''end'' = Inr ev"
    and "parse_datetime c ev w1 = (Some period_stop, w2)"
    and "\<not> period_start < period_stop"
  shows "(authorize_list c (nova_context req) \<longrightarrow>
            index c req w = (Inl (HTTPBadRequest StartAfterEnd), w2))
       \<and> (authorize_show c (nova_context req) tenant \<longrightarrow>
            show_usage c req tenant w = (Inl (HTTPBadRequest StartAfterEnd), w2))
       \<and> lookups w2 = lookups w"
proof -
  have r: "get_datetime_range c req w = (Inl (HTTPBadRequest StartAfterEnd), w2)"
    using assms by (simp add: get_datetime_range_def)
  have l: "lookups w2 = lookups w"
    using parse_datetime_lookups [OF assms(2)] parse_datetime_lookups [OF assms(4)] by simp
  show ?thesis
    using r l by (simp add: index_def show_usage_def)
qed

theorem start_not_before_end_rejected_witness:
  "index demo_collab (demo_request ''hour'' ''epoch'') demo_world
     = (Inl (HTTPBadRequest StartAfterEnd), demo_world)
   \<and> show_usage demo_collab (demo_request ''hour'' ''epoch'') ''t1'' demo_world
     = (Inl (HTTPBadRequest StartAfterEnd), demo_world)
   \<and> lookups demo_world = []"
proof -
  let ?req = "demo_request ''hour'' ''epoch''"
  have 1: "query_first (query ?req) ''start'' = Inr (Some ''hour'')"
    by (simp add: query_first_def demo_request_def)
  have 2: "parse_datetime demo_collab (Some ''hour'') demo_world = (Some 3600000000, demo_world)"
    by (simp add: parse_datetime_def VALID_DATETIME_FORMAT_def demo_collab_def)
  have 3: "query_first (query ?req) ''end'' = Inr (Some ''epoch'')"
    by (simp add: query_first_def demo_request_def)
  have 4: "parse_datetime demo_collab (Some ''epoch'') demo_world = (Some 0, demo_world)"
    by (simp add: parse_datetime_def VALID_DATETIME_FORMAT_def demo_collab_def)
  have 5: "\<not> (3600000000::int) < 0"
    by simp
  have 6: "authorize_list demo_collab (nova_context ?req)"
    "authorize_show demo_collab (nova_context ?req) ''t1''"
    by (simp_all add: demo_collab_def)
  show ?thesis
    using start_not_before_end_rejected [OF 1 2 3 4 5, of "''t1''"] 6
    by (simp add: demo_world_def)
qed

text \<open>
  Claim C7. When the parsed stop of the window lies after the clock reading taken by the
  handler, an authorised \<^verbatim>\<open>index\<close> or \<^verbatim>\<open>show\<close> request runs the aggregator on the
  window that ends at that clock reading, and the one lookup it makes is called with
  that reading as the stop of the window.
\<close>

theorem future_stop_clipped:
  assumes "get_datetime_range c req w = (Inr (period_start, period_stop, detailed), w1)"
    and "read_clock c w1 = (now, w2)"
    and "now < period_stop"
  shows "(authorize_list c (nova_context req) \<longrightarrow>
            index c req w
              = tenant_usages_for_period c (nova_context req) period_start now None detailed w2
            \<and> lookups (snd (index c req w)) = lookups w @ [(period_start, now, None)])
       \<and> (authorize_show c (nova_context req) tenant \<longrightarrow>
            show_usage c req tenant w
              = (case tenant_usages_for_period c (nova_context req) period_start now
                        (Some tenant) True w2 of
                   (Inl e, w3) \<Rightarrow> (Inl e, w3)
                 | (Inr usage, w3) \<Rightarrow> (Inr (case usage of [] \<Rightarrow> None | u # us \<Rightarrow> Some u), w3))
            \<and> lookups (snd (show_usage c req tenant w))
              = lookups w @ [(period_start, now, Some tenant)])"
proof -
  have clip: "clip_stop c period_stop w1 = (now, w2)"
    using assms(2,3) by (simp add: clip_stop_def)
  have l2: "lookups w2 = lookups w"
    using get_datetime_range_lookups [OF assms(1)] read_clock_lookups [OF assms(2)] by simp
  have i: "authorize_list c (nova_context req) \<Longrightarrow>
      index c req w
        = tenant_usages_for_period c (nova_context req) period_start now None detailed w2"
    by (simp add: index_def assms(1) clip)
  have s: "authorize_show c (nova_context req) tenant \<Longrightarrow>
      show_usage c req tenant w
        = (case tenant_usages_for_period c (nova_context req) period_start now
                  (Some tenant) True w2 of
             (Inl e, w3) \<Rightarrow> (Inl e, w3)
           | (Inr usage, w3) \<Rightarrow> (Inr (case usage of [] \<Rightarrow> None | u # us \<Rightarrow> Some u), w3))"
    by (simp add: show_usage_def assms(1) clip)
  have il: "lookups (snd (tenant_usages_for_period c (nova_context req) period_start now
                None detailed w2)) = lookups w @ [(period_start, now, None)]"
    using tenant_usages_for_period_lookups
      [of c "nova_context req" period_start now None detailed w2] l2
    by (cases "tenant_usages_for_period c (nova_context req) period_start now None detailed w2")
       simp
  have sl: "lookups (snd (case tenant_usages_for_period c (nova_context req) period_start now
                  (Some tenant) True w2 of
             (Inl e, w3) \<Rightarrow> (Inl e, w3)
           | (Inr usage, w3) \<Rightarrow>
               (Inr (case usage of [] \<Rightarrow> None | u # us \<Rightarrow> Some u), w3)))
         = lookups w @ [(period_start, now, Some tenant)]"
    using tenant_usages_for_period_lookups
      [of c "nova_context req" period_start now "Some tenant" True w2] l2
    by (cases "tenant_usages_for_period c (nova_context req) period_start now
                 (Some tenant) True w2")
       (auto split: sum.splits)
  show ?thesis
    using i s il sl by simp
qed

theorem future_stop_clipped_witness:
  "lookups (snd (index demo_collab (demo_request ''epoch'' ''late'') demo_world))
     = [(0, 7200000000, None)]
   \<and> lookups (snd (show_usage demo_collab (demo_request ''epoch'' ''late'') ''t1'' demo_world))
     = [(0, 7200000000, Some ''t1'')]"
proof -
  let ?req = "demo_request ''epoch'' ''late''"
  have 1: "get_datetime_range demo_collab ?req demo_world
             = (Inr (0, 9000000000000, False), demo_world)"
    by (simp add: get_datetime_range_def query_first_def demo_request_def parse_datetime_def
        VALID_DATETIME_FORMAT_def demo_collab_def)
  have 2: "read_clock demo_collab demo_world = (7200000000, demo_world\<lparr>clock_reads := 1\<rparr>)"
    by (simp add: read_clock_def demo_collab_def demo_world_def)
  have 3: "(7200000000::int) < 9000000000000"
    by simp
  have 4: "authorize_list demo_collab (nova_context ?req)"
    "authorize_show demo_collab (nova_context ?req) ''t1''"
    by (simp_all add: demo_collab_def)
  note t = future_stop_clipped [OF 1 2 3, of "''t1''"]
  from t 4(1) have a: "lookups (snd (index demo_collab ?req demo_world))
      = lookups demo_world @ [(0, 7200000000, None)]"
    by blast
  from t 4(2) have b: "lookups (snd (show_usage demo_collab ?req ''t1'' demo_world))
      = lookups demo_world @ [(0, 7200000000, Some ''t1'')]"
    by blast
  from a b show ?thesis
    by (simp add: demo_world_def)
qed

text \<open>
  Claim C8. An authorised \<^verbatim>\<open>show\<close> request with a valid window, for a tenant for
  which the instance lookup returns no instance, returns the empty structure and no
  error.
\<close>

theorem show_no_instances_empty:
  assumes "authorize_show c (nova_context req) tenant"
    and "get_datetime_range c req w = (Inr (period_start, period_stop, ignore), w1)"
    and "clip_stop c period_stop w1 = (period_stop', w2)"
    and "get_active_by_window c (nova_context req) period_start period_stop' (Some tenant) = []"
  shows "show_usage c req tenant w
           = (Inr None, w2\<lparr>lookups := lookups w2 @ [(period_start, period_stop', Some tenant)]\<rparr>)"
  using assms by (simp add: show_usage_def tenant_usages_for_period_def)

theorem show_no_instances_empty_witness:
  "show_usage demo_collab (demo_request ''epoch'' ''hour'') ''t1'' demo_world
     = (Inr None, \<lparr>clock_reads = 1, lookups = [(0, 3600000000, Some ''t1'')]\<rparr>)"
proof -
  let ?req = "demo_request ''epoch'' ''hour''"
  have 1: "authorize_show demo_collab (nova_context ?req) ''t1''"
    by (simp add: demo_collab_def)
  have 2: "get_datetime_range demo_collab ?req demo_world
             = (Inr (0, 3600000000, False), demo_world)"
    by (simp add: get_datetime_range_def query_first_def demo_request_def parse_datetime_def
        VALID_DATETIME_FORMAT_def demo_collab_def)
  have 3: "clip_stop demo_collab 3600000000 demo_world
             = (3600000000, demo_world\<lparr>clock_reads := 1\<rparr>)"
    by (simp add: clip_stop_def read_clock_def demo_collab_def demo_world_def)
  have 4: "get_active_by_window demo_collab (nova_context ?req) 0 3600000000 (Some ''t1'') = []"
    by (simp add: demo_collab_def)
  show ?thesis
    using show_no_instances_empty [OF 1 2 3 4] by (simp add: demo_world_def)
qed

subsection \<open>Instances that never launched\<close>

lemma field_sub_TsNone: "field_sub a TsNone = Inl TypeError"
  by (simp add: field_sub_def split: timestamp_field.splits)

text \<open>
  Whatever the termination timestamp and the state, the uptime of lines 141 to 146
  subtracts the absent launch timestamp, which is a \<^verbatim>\<open>TypeError\<close>.
\<close>

lemma instance_usage_unlaunched:
  assumes "launched_at inst = TsNone"
    and "hours_for c inst period_start period_stop = Inr h"
    and "get_flavor c ctx inst flavors_cache = (Inr (Some fl), cache')"
  shows "fst (instance_usage c ctx period_start period_stop inst flavors_cache w) = Inl TypeError"
  using assms
  by (simp add: instance_usage_def Let_def field_sub_TsNone split: prod.splits)

text \<open>
  Claim C10. An instance with no launch timestamp whose flavor resolves should be
  reported with 0 hours. On the running instance below the hours calculator returns 0
  and the flavor resolves, but the aggregator ends with a \<^verbatim>\<open>TypeError\<close>: line 144
  computes \<^verbatim>\<open>now - None\<close>.
\<close>

theorem unlaunched_instance_type_error:
  "hours_for demo_collab (demo_instance\<lparr>launched_at := TsNone\<rparr>) 0 3600000000 = Inr 0
   \<and> get_flavor demo_collab ''admin'' (demo_instance\<lparr>launched_at := TsNone\<rparr>) Map.empty
       = (Inr (Some demo_flavor), Map.empty)
   \<and> fst (tenant_usages_for_period
            (demo_collab\<lparr>get_active_by_window :=
               \<lambda>ctx a b t. [demo_instance\<lparr>launched_at := TsNone\<rparr>]\<rparr>)
            ''admin'' 0 3600000000 None True demo_world) = Inl TypeError"
  by (simp add: hours_for_def normalize_timestamp_def billable_hours_def get_flavor_def
      tenant_usages_for_period_def instance_usage_def read_clock_def field_sub_def truthy_def
      demo_collab_def demo_instance_def demo_world_def)


section \<open>Properties of the usage aggregator\<close>

text \<open>
  With a coherent cache the resolver returns the flavor that \<open>resolved_flavor\<close>
  describes, or raises the \<^verbatim>\<open>KeyError\<close> of an instance that is not deleted, and the
  cache stays coherent.
\<close>

lemma get_flavor_resolved:
  assumes "cache_coherent c ctx flavors_cache"
    and "get_flavor c ctx inst flavors_cache = (r, cache')"
  shows "cache_coherent c ctx cache'"
    and "r = Inl KeyError \<or> r = Inr (resolved_flavor c ctx inst)"
  using assms
  by (auto simp: get_flavor_def resolved_flavor_def cache_coherent_def Let_def
      split: option.splits if_splits)

lemma instance_usage_result:
  assumes "cache_coherent c ctx flavors_cache"
    and "instance_usage c ctx ps pe inst flavors_cache w = (r, cache', w')"
  shows "cache_coherent c ctx cache'"
    and "r = Inr None \<Longrightarrow> resolved_flavor c ctx inst = None"
    and "r = Inr (Some u) \<Longrightarrow> usage_of c ctx ps pe inst u"
proof -
  obtain fr fc where gf: "get_flavor c ctx inst flavors_cache = (fr, fc)"
    by (cases "get_flavor c ctx inst flavors_cache") auto
  note g = get_flavor_resolved [OF assms(1) gf]
  show "cache_coherent c ctx cache'"
    using assms(1,2) g(1)
    by (auto simp: instance_usage_def gf Let_def split: sum.splits option.splits prod.splits)
  show "r = Inr None \<Longrightarrow> resolved_flavor c ctx inst = None"
    using assms(2) g(2)
    by (auto simp: instance_usage_def gf Let_def split: sum.splits option.splits prod.splits)
  show "r = Inr (Some u) \<Longrightarrow> usage_of c ctx ps pe inst u"
    using assms(2) g(2)
    by (auto simp: instance_usage_def gf Let_def usage_of_def
        split: sum.splits option.splits prod.splits)
qed


subsection \<open>Accumulating one entry\<close>

lemma summary_of_snoc:
  assumes "summary_of t us sm" and "su_tenant_id u = t"
  shows "summary_of t (us @ [u])
     (sm\<lparr>total_local_gb_usage :=
           total_local_gb_usage sm + real_of_int (su_local_gb u) * su_hours u,
         total_vcpus_usage := total_vcpus_usage sm + real_of_int (su_vcpus u) * su_hours u,
         total_memory_mb_usage :=
           total_memory_mb_usage sm + real_of_int (su_memory_mb u) * su_hours u,
         total_hours := total_hours sm + su_hours u,
         server_usages := Some (us @ [u])\<rparr>)"
  using assms by (simp add: summary_of_def)

lemma summary_of_new: "summary_of t [] (new_summary t True ps pe)"
  by (simp add: summary_of_def new_summary_def)

lemma accumulate_detailed:
  assumes "case map_of rval (su_tenant_id u) of None \<Rightarrow> us = [] | Some sm \<Rightarrow> summary_of (su_tenant_id u) us sm"
  shows "\<exists>sm'. accumulate ps pe True u rval = Inr (AList.update (su_tenant_id u) sm' rval)
           \<and> summary_of (su_tenant_id u) (us @ [u]) sm'"
proof (cases "map_of rval (su_tenant_id u)")
  case None
  with assms have us: "us = []" by simp
  have "summary_of (su_tenant_id u) ([] @ [u])
     ((new_summary (su_tenant_id u) True ps pe)
       \<lparr>total_local_gb_usage :=
           total_local_gb_usage (new_summary (su_tenant_id u) True ps pe)
             + real_of_int (su_local_gb u) * su_hours u,
         total_vcpus_usage :=
           total_vcpus_usage (new_summary (su_tenant_id u) True ps pe)
             + real_of_int (su_vcpus u) * su_hours u,
         total_memory_mb_usage :=
           total_memory_mb_usage (new_summary (su_tenant_id u) True ps pe)
             + real_of_int (su_memory_mb u) * su_hours u,
         total_hours := total_hours (new_summary (su_tenant_id u) True ps pe) + su_hours u,
         server_usages := Some ([] @ [u])\<rparr>)"
    by (rule summary_of_snoc [OF summary_of_new]) simp
  then show ?thesis
    using None us by (auto simp: accumulate_def Let_def new_summary_def)
next
  case (Some sm)
  with assms have sm: "summary_of (su_tenant_id u) us sm" by simp
  then have su: "server_usages sm = Some us" by (simp add: summary_of_def)
  show ?thesis
    using Some su summary_of_snoc [OF sm refl]
    by (auto simp: accumulate_def Let_def)
qed

lemma rval_of_accumulate:
  assumes "rval_of emitted rval"
  shows "\<exists>rval1. accumulate ps pe True u rval = Inr rval1 \<and> rval_of (emitted @ [u]) rval1"
proof -
  let ?t = "su_tenant_id u"
  let ?us = "filter (\<lambda>v. su_tenant_id v = ?t) emitted"
  have d: "distinct (map fst rval)"
    and inv: "\<And>t. case map_of rval t of
                None \<Rightarrow> filter (\<lambda>v. su_tenant_id v = t) emitted = []
              | Some sm \<Rightarrow> filter (\<lambda>v. su_tenant_id v = t) emitted \<noteq> []
                  \<and> summary_of t (filter (\<lambda>v. su_tenant_id v = t) emitted) sm"
    using assms by (simp_all add: rval_of_def)
  have "case map_of rval ?t of None \<Rightarrow> ?us = [] | Some sm \<Rightarrow> summary_of ?t ?us sm"
    using inv [of ?t] by (simp split: option.splits)
  from accumulate_detailed [OF this, of ps pe]
  obtain sm' where acc: "accumulate ps pe True u rval = Inr (AList.update ?t sm' rval)"
    and sm': "summary_of ?t (?us @ [u]) sm'"
    by blast
  have "rval_of (emitted @ [u]) (AList.update ?t sm' rval)"
    unfolding rval_of_def
  proof (intro conjI allI)
    show "distinct (map fst (AList.update ?t sm' rval))"
      using d by (rule distinct_update)
  next
    fix t
    show "case map_of (AList.update ?t sm' rval) t of
            None \<Rightarrow> filter (\<lambda>v. su_tenant_id v = t) (emitted @ [u]) = []
          | Some sm \<Rightarrow> filter (\<lambda>v. su_tenant_id v = t) (emitted @ [u]) \<noteq> []
              \<and> summary_of t (filter (\<lambda>v. su_tenant_id v = t) (emitted @ [u])) sm"
    proof (cases "t = ?t")
      case True
      then show ?thesis using sm' by (simp add: update_conv')
    next
      case False
      then show ?thesis using inv [of t] by (auto simp: update_conv' split: option.splits)
    qed
  qed
  with acc show ?thesis by blast
qed

subsection \<open>The loop\<close>

text \<open>
  A run of the loop that ends without error emits one entry for each instance whose
  flavor resolves, in order, and accumulates exactly these entries.
\<close>

lemma usages_loop_rval_of:
  assumes "usages_loop c ctx ps pe True insts rval flavors_cache w = (Inr rval', w')"
    and "cache_coherent c ctx flavors_cache"
    and "rval_of emitted rval"
  shows "\<exists>new. rval_of (emitted @ new) rval'
           \<and> list_all2 (usage_of c ctx ps pe)
                (filter (\<lambda>i. resolved_flavor c ctx i \<noteq> None) insts) new"
  using assms
proof (induction insts arbitrary: rval flavors_cache w emitted)
  case Nil
  then show ?case by simp
next
  case (Cons inst rest)
  obtain r cache1 w1 where iu: "instance_usage c ctx ps pe inst flavors_cache w = (r, cache1, w1)"
    by (cases "instance_usage c ctx ps pe inst flavors_cache w") auto
  note res = instance_usage_result [OF Cons.prems(2) iu]
  show ?case
  proof (cases r)
    case (Inl e)
    then show ?thesis using Cons.prems(1) by (simp add: iu)
  next
    case (Inr ou)
    show ?thesis
    proof (cases ou)
      case None
      then have loop: "usages_loop c ctx ps pe True rest rval cache1 w1 = (Inr rval', w')"
        using Cons.prems(1) Inr by (simp add: iu)
      have "resolved_flavor c ctx inst = None"
        using res(2) Inr None by simp
      then show ?thesis
        using Cons.IH [OF loop res(1) Cons.prems(3)] by simp
    next
      case (Some u)
      obtain rval1 where acc: "accumulate ps pe True u rval = Inr rval1"
        and inv1: "rval_of (emitted @ [u]) rval1"
        using rval_of_accumulate [OF Cons.prems(3)] by blast
      have loop: "usages_loop c ctx ps pe True rest rval1 cache1 w1 = (Inr rval', w')"
        using Cons.prems(1) Inr Some acc by (simp add: iu)
      have u: "usage_of c ctx ps pe inst u"
        using res(3) Inr Some by simp
      then have rf: "resolved_flavor c ctx inst \<noteq> None"
        by (auto simp: usage_of_def split: option.splits)
      from Cons.IH [OF loop res(1) inv1]
      obtain new where n: "rval_of ((emitted @ [u]) @ new) rval'"
        "list_all2 (usage_of c ctx ps pe)
           (filter (\<lambda>i. resolved_flavor c ctx i \<noteq> None) rest) new"
        by blast
      have "rval_of (emitted @ (u # new)) rval'"
        using n(1) by simp
      moreover have "list_all2 (usage_of c ctx ps pe)
           (filter (\<lambda>i. resolved_flavor c ctx i \<noteq> None) (inst # rest)) (u # new)"
        using n(2) u rf by simp
      ultimately show ?thesis by blast
    qed
  qed
qed

lemma list_all2_filter:
  assumes "list_all2 P xs ys" and "\<And>x y. P x y \<Longrightarrow> f x = g y"
  shows "list_all2 P (filter f xs) (filter g ys)"
  using assms(1)
proof (induction rule: list_all2_induct)
  case Nil
  then show ?case by simp
next
  case (Cons x xs y ys)
  then show ?case using assms(2) [of x y] by auto
qed

lemma list_all2_partner:
  assumes "list_all2 P xs ys" and "x \<in> set xs"
  shows "\<exists>y \<in> set ys. P x y"
  using assms by (induction rule: list_all2_induct) auto

lemma rval_of_empty: "rval_of [] []"
  by (simp add: rval_of_def)

lemma cache_coherent_empty: "cache_coherent c ctx Map.empty"
  by (simp add: cache_coherent_def)


lemma rval_of_entry:
  assumes "rval_of emitted rval" and "(t, sm) \<in> set rval"
  shows "summary_of t (filter (\<lambda>u. su_tenant_id u = t) emitted) sm"
proof -
  have "distinct (map fst rval)"
    using assms(1) by (simp add: rval_of_def)
  then have "map_of rval t = Some sm"
    using assms(2) by simp
  moreover have "case map_of rval t of
        None \<Rightarrow> filter (\<lambda>u. su_tenant_id u = t) emitted = []
      | Some sm \<Rightarrow> filter (\<lambda>u. su_tenant_id u = t) emitted \<noteq> []
          \<and> summary_of t (filter (\<lambda>u. su_tenant_id u = t) emitted) sm"
    using assms(1) by (simp add: rval_of_def)
  ultimately show ?thesis by simp
qed

lemma rval_of_tenant_ids:
  assumes "rval_of emitted rval"
  shows "map tenant_id (map snd rval) = map fst rval"
proof -
  have "\<And>p. p \<in> set rval \<Longrightarrow> tenant_id (snd p) = fst p"
  proof -
    fix p assume "p \<in> set rval"
    then have "(fst p, snd p) \<in> set rval" by simp
    from rval_of_entry [OF assms this] show "tenant_id (snd p) = fst p"
      by (simp add: summary_of_def)
  qed
  then show ?thesis by simp
qed

lemma rval_of_has_tenant:
  assumes "rval_of emitted rval" and "u \<in> set emitted"
  shows "su_tenant_id u \<in> tenant_id ` set (map snd rval)"
proof -
  let ?t = "su_tenant_id u"
  have ne: "filter (\<lambda>v. su_tenant_id v = ?t) emitted \<noteq> []"
    using assms(2) by (auto simp: filter_empty_conv)
  have "case map_of rval ?t of
        None \<Rightarrow> filter (\<lambda>v. su_tenant_id v = ?t) emitted = []
      | Some sm \<Rightarrow> filter (\<lambda>v. su_tenant_id v = ?t) emitted \<noteq> []
          \<and> summary_of ?t (filter (\<lambda>v. su_tenant_id v = ?t) emitted) sm"
    using assms(1) by (simp add: rval_of_def)
  with ne obtain sm where m: "map_of rval ?t = Some sm"
    and s: "summary_of ?t (filter (\<lambda>v. su_tenant_id v = ?t) emitted) sm"
    by (auto split: option.splits)
  from m have "(?t, sm) \<in> set rval"
    by (rule map_of_SomeD)
  then have "sm \<in> set (map snd rval)"
    by force
  moreover have "tenant_id sm = ?t"
    using s by (simp add: summary_of_def)
  ultimately show ?thesis by force
qed

text \<open>
  Claim C2. When the aggregator returns a report in detailed mode, no tenant has two
  summaries, every tenant with an instance whose flavor resolves has a summary, and in
  each summary the detail list reports, in order and entry by entry, the instances of
  that tenant whose flavor resolves; \<open>total_hours\<close> is the sum of the hours of the
  detail list, and \<open>total_vcpus_usage\<close>, \<open>total_memory_mb_usage\<close> and
  \<open>total_local_gb_usage\<close> are the sums of hours times \<open>vcpus\<close>, \<open>memory_mb\<close> and
  \<open>root_gb + ephemeral_gb\<close> over the same list.
\<close>

theorem tenant_totals_are_sums:
  assumes "tenant_usages_for_period c ctx ps pe tenant True w = (Inr sms, w')"
  shows "distinct (map tenant_id sms)
       \<and> (\<forall>i \<in> set (get_active_by_window c ctx ps pe tenant).
             resolved_flavor c ctx i \<noteq> None \<longrightarrow> project_id i \<in> tenant_id ` set sms)
       \<and> (\<forall>sm \<in> set sms. \<exists>us.
             server_usages sm = Some us
             \<and> list_all2 (usage_of c ctx ps pe)
                 (filter (\<lambda>i. project_id i = tenant_id sm \<and> resolved_flavor c ctx i \<noteq> None)
                    (get_active_by_window c ctx ps pe tenant)) us
             \<and> total_hours sm = sum_list (map su_hours us)
             \<and> total_vcpus_usage sm
                 = sum_list (map (\<lambda>u. real_of_int (su_vcpus u) * su_hours u) us)
             \<and> total_memory_mb_usage sm
                 = sum_list (map (\<lambda>u. real_of_int (su_memory_mb u) * su_hours u) us)
             \<and> total_local_gb_usage sm
                 = sum_list (map (\<lambda>u. real_of_int (su_local_gb u) * su_hours u) us))"
proof -
  let ?insts = "get_active_by_window c ctx ps pe tenant"
  let ?w1 = "w\<lparr>lookups := lookups w @ [(ps, pe, tenant)]\<rparr>"
  obtain rval where loop: "usages_loop c ctx ps pe True ?insts [] Map.empty ?w1 = (Inr rval, w')"
    and sms: "sms = map snd rval"
    using assms
    by (auto simp: tenant_usages_for_period_def Let_def split: prod.splits sum.splits)
  from usages_loop_rval_of [OF loop cache_coherent_empty rval_of_empty]
  obtain emitted where inv: "rval_of emitted rval"
    and rel: "list_all2 (usage_of c ctx ps pe)
                (filter (\<lambda>i. resolved_flavor c ctx i \<noteq> None) ?insts) emitted"
    by auto
  have tenant_match: "\<And>i u. usage_of c ctx ps pe i u \<Longrightarrow> su_tenant_id u = project_id i"
    by (auto simp: usage_of_def split: option.splits)
  have d: "distinct (map tenant_id sms)"
  proof -
    have "distinct (map fst rval)"
      using inv by (simp add: rval_of_def)
    then show ?thesis
      unfolding sms rval_of_tenant_ids [OF inv] .
  qed
  have complete: "\<forall>i \<in> set ?insts.
      resolved_flavor c ctx i \<noteq> None \<longrightarrow> project_id i \<in> tenant_id ` set sms"
  proof (intro ballI impI)
    fix i assume "i \<in> set ?insts" and "resolved_flavor c ctx i \<noteq> None"
    then have "i \<in> set (filter (\<lambda>i. resolved_flavor c ctx i \<noteq> None) ?insts)"
      by simp
    then obtain u where "u \<in> set emitted" and "usage_of c ctx ps pe i u"
      using list_all2_partner [OF rel] by blast
    then show "project_id i \<in> tenant_id ` set sms"
      using rval_of_has_tenant [OF inv, of u] tenant_match [of i u] by (simp add: sms)
  qed
  have sums: "\<forall>sm \<in> set sms. \<exists>us.
             server_usages sm = Some us
             \<and> list_all2 (usage_of c ctx ps pe)
                 (filter (\<lambda>i. project_id i = tenant_id sm \<and> resolved_flavor c ctx i \<noteq> None)
                    ?insts) us
             \<and> total_hours sm = sum_list (map su_hours us)
             \<and> total_vcpus_usage sm
                 = sum_list (map (\<lambda>u. real_of_int (su_vcpus u) * su_hours u) us)
             \<and> total_memory_mb_usage sm
                 = sum_list (map (\<lambda>u. real_of_int (su_memory_mb u) * su_hours u) us)
             \<and> total_local_gb_usage sm
                 = sum_list (map (\<lambda>u. real_of_int (su_local_gb u) * su_hours u) us)"
  proof
    fix sm assume "sm \<in> set sms"
    then obtain t where mem: "(t, sm) \<in> set rval"
      by (auto simp: sms)
    let ?us = "filter (\<lambda>u. su_tenant_id u = t) emitted"
    have so: "summary_of t ?us sm"
      using rval_of_entry [OF inv mem] .
    then have t: "tenant_id sm = t"
      by (simp add: summary_of_def)
    have "list_all2 (usage_of c ctx ps pe)
            (filter (\<lambda>i. project_id i = t)
               (filter (\<lambda>i. resolved_flavor c ctx i \<noteq> None) ?insts)) ?us"
      using rel
    proof (rule list_all2_filter)
      fix i u assume "usage_of c ctx ps pe i u"
      then show "(project_id i = t) = (su_tenant_id u = t)"
        using tenant_match [of i u] by simp
    qed
    moreover have "filter (\<lambda>i. project_id i = t)
               (filter (\<lambda>i. resolved_flavor c ctx i \<noteq> None) ?insts)
        = filter (\<lambda>i. project_id i = tenant_id sm \<and> resolved_flavor c ctx i \<noteq> None) ?insts"
      by (simp add: t conj_commute)
    ultimately have "list_all2 (usage_of c ctx ps pe)
        (filter (\<lambda>i. project_id i = tenant_id sm \<and> resolved_flavor c ctx i \<noteq> None) ?insts) ?us"
      by simp
    with so show "\<exists>us.
             server_usages sm = Some us
             \<and> list_all2 (usage_of c ctx ps pe)
                 (filter (\<lambda>i. project_id i = tenant_id sm \<and> resolved_flavor c ctx i \<noteq> None)
                    ?insts) us
             \<and> total_hours sm = sum_list (map su_hours us)
             \<and> total_vcpus_usage sm
                 = sum_list (map (\<lambda>u. real_of_int (su_vcpus u) * su_hours u) us)
             \<and> total_memory_mb_usage sm
                 = sum_list (map (\<lambda>u. real_of_int (su_memory_mb u) * su_hours u) us)
             \<and> total_local_gb_usage sm
                 = sum_list (map (\<lambda>u. real_of_int (su_local_gb u) * su_hours u) us)"
      by (auto simp: summary_of_def)
  qed
  from d complete sums show ?thesis by blast
qed


lemma demo_run:
  "tenant_usages_for_period demo_busy_collab ''admin'' 0 3600000000 None True demo_world
     = (Inr demo_report, \<lparr>clock_reads = 3, lookups = [(0, 3600000000, None)]\<rparr>)"
  by (simp add: tenant_usages_for_period_def demo_busy_collab_def demo_instances_def
      instance_usage_def hours_for_def normalize_timestamp_def billable_hours_def
      datetime_sub_def get_flavor_def read_clock_def truthy_def field_sub_def
      accumulate_def new_summary_def demo_collab_def demo_instance_def demo_flavor_def
      demo_world_def demo_report_def)

theorem tenant_totals_are_sums_witness:
  "tenant_usages_for_period demo_busy_collab ''admin'' 0 3600000000 None True demo_world
     = (Inr demo_report, \<lparr>clock_reads = 3, lookups = [(0, 3600000000, None)]\<rparr>)
   \<and> distinct (map tenant_id demo_report)
   \<and> (\<exists>us. server_usages (hd demo_report) = Some us
         \<and> total_hours (hd demo_report) = sum_list (map su_hours us)
         \<and> total_vcpus_usage (hd demo_report)
             = sum_list (map (\<lambda>u. real_of_int (su_vcpus u) * su_hours u) us)
         \<and> total_memory_mb_usage (hd demo_report)
             = sum_list (map (\<lambda>u. real_of_int (su_memory_mb u) * su_hours u) us)
         \<and> total_local_gb_usage (hd demo_report)
             = sum_list (map (\<lambda>u. real_of_int (su_local_gb u) * su_hours u) us))"
proof -
  note t = tenant_totals_are_sums [OF demo_run]
  have m: "hd demo_report \<in> set demo_report"
    by (simp add: demo_report_def)
  from t have "distinct (map tenant_id demo_report)"
    by blast
  moreover from t m have "\<exists>us. server_usages (hd demo_report) = Some us
         \<and> total_hours (hd demo_report) = sum_list (map su_hours us)
         \<and> total_vcpus_usage (hd demo_report)
             = sum_list (map (\<lambda>u. real_of_int (su_vcpus u) * su_hours u) us)
         \<and> total_memory_mb_usage (hd demo_report)
             = sum_list (map (\<lambda>u. real_of_int (su_memory_mb u) * su_hours u) us)
         \<and> total_local_gb_usage (hd demo_report)
             = sum_list (map (\<lambda>u. real_of_int (su_local_gb u) * su_hours u) us)"
    by blast
  ultimately show ?thesis
    using demo_run by blast
qed

subsection \<open>Instances whose flavor is not in the catalog\<close>

text \<open>The loop does not depend on the lookup collaborator.\<close>

lemma normalize_timestamp_lookup_irrelevant:
  "normalize_timestamp (c\<lparr>get_active_by_window := g\<rparr>) f = normalize_timestamp c f"
  by (cases f) (simp_all add: normalize_timestamp_def)

lemma hours_for_lookup_irrelevant:
  "hours_for (c\<lparr>get_active_by_window := g\<rparr>) inst ps pe = hours_for c inst ps pe"
  by (simp add: hours_for_def normalize_timestamp_lookup_irrelevant cong: sum.case_cong)

lemma get_flavor_lookup_irrelevant:
  "get_flavor (c\<lparr>get_active_by_window := g\<rparr>) ctx inst flavors_cache
     = get_flavor c ctx inst flavors_cache"
  by (simp add: get_flavor_def Let_def cong: option.case_cong)

lemma read_clock_lookup_irrelevant:
  "read_clock (c\<lparr>get_active_by_window := g\<rparr>) w = read_clock c w"
  by (simp add: read_clock_def)

lemma instance_usage_lookup_irrelevant:
  "instance_usage (c\<lparr>get_active_by_window := g\<rparr>) ctx ps pe inst flavors_cache w
     = instance_usage c ctx ps pe inst flavors_cache w"
  by (simp add: instance_usage_def hours_for_lookup_irrelevant get_flavor_lookup_irrelevant
      read_clock_lookup_irrelevant Let_def
      cong: sum.case_cong option.case_cong prod.case_cong)

lemma usages_loop_lookup_irrelevant:
  "usages_loop (c\<lparr>get_active_by_window := g\<rparr>) ctx ps pe d insts rval flavors_cache w
     = usages_loop c ctx ps pe d insts rval flavors_cache w"
  by (induction insts arbitrary: rval flavors_cache w)
     (simp_all add: instance_usage_lookup_irrelevant split: prod.splits sum.splits option.splits)

lemma instance_usage_flavor_not_found:
  assumes "cache_coherent c ctx flavors_cache"
    and "extract_flavor c inst = None" and "deleted inst"
    and "get_instance_type c ctx (instance_type_id inst) = None"
    and "hours_for c inst ps pe = Inr h"
  shows "instance_usage c ctx ps pe inst flavors_cache w = (Inr None, flavors_cache, w)"
proof -
  have "flavors_cache (instance_type_id inst) = None"
    using assms(1,4) by (cases "flavors_cache (instance_type_id inst)") (auto simp: cache_coherent_def)
  then show ?thesis
    using assms(2-5) by (simp add: instance_usage_def get_flavor_def)
qed

lemma usages_loop_flavor_not_found:
  assumes "cache_coherent c ctx flavors_cache"
    and "extract_flavor c inst = None" and "deleted inst"
    and "get_instance_type c ctx (instance_type_id inst) = None"
    and "hours_for c inst ps pe = Inr h"
  shows "usages_loop c ctx ps pe d (xs @ inst # ys) rval flavors_cache w
           = usages_loop c ctx ps pe d (xs @ ys) rval flavors_cache w"
  using assms(1)
proof (induction xs arbitrary: rval flavors_cache w)
  case Nil
  then show ?case
    using instance_usage_flavor_not_found [OF Nil assms(2-5)] by simp
next
  case (Cons x xs)
  obtain r cache1 w1 where iu: "instance_usage c ctx ps pe x flavors_cache w = (r, cache1, w1)"
    by (cases "instance_usage c ctx ps pe x flavors_cache w") auto
  have "cache_coherent c ctx cache1"
    using instance_usage_result(1) [OF Cons.prems iu] .
  from Cons.IH [OF this] show ?case
    by (simp add: iu split: sum.splits option.splits)
qed

text \<open>
  Claim C5. Let the lookup return an instance that has no embedded flavor, is deleted,
  has a flavor the catalog does not know, and has timestamps the hours calculator
  accepts. Then the aggregator returns what it returns when the lookup leaves that
  instance out: the same error or the same summaries with the same totals and the same
  detail lists, and the same side effects.
\<close>

theorem flavor_not_found_excluded:
  assumes "extract_flavor c inst = None" and "deleted inst"
    and "get_instance_type c ctx (instance_type_id inst) = None"
    and "hours_for c inst ps pe = Inr h"
    and "get_active_by_window c ctx ps pe tenant = xs @ inst # ys"
  shows "tenant_usages_for_period c ctx ps pe tenant detailed w
           = tenant_usages_for_period (c\<lparr>get_active_by_window := \<lambda>ctx' a b t. xs @ ys\<rparr>)
               ctx ps pe tenant detailed w"
  using usages_loop_flavor_not_found [OF cache_coherent_empty assms(1-4), of detailed xs ys "[]"]
  by (simp add: tenant_usages_for_period_def assms(5) usages_loop_lookup_irrelevant)


theorem flavor_not_found_excluded_witness:
  "tenant_usages_for_period demo_busy_collab ''admin'' 0 3600000000 None True demo_world
     = tenant_usages_for_period
         (demo_busy_collab\<lparr>get_active_by_window := \<lambda>ctx a b t.
            [demo_instance,
             demo_instance\<lparr>uuid := ''u2'', display_name := ''vm2'', project_id := ''t2'',
               launched_at := TsDatetime 1800000000\<rparr>]
            @ [demo_instance\<lparr>uuid := ''u4'', display_name := ''vm4'',
                 terminated_at := TsDatetime 1800000000, deleted := True\<rparr>]\<rparr>)
         ''admin'' 0 3600000000 None True demo_world"
  by (rule flavor_not_found_excluded
        [where inst = "demo_instance\<lparr>uuid := ''u3'', display_name := ''vm3'',
                 terminated_at := TsDatetime 1800000000, deleted := True,
                 instance_type_id := 7\<rparr>"
           and h = "1 / 2"])
     (simp_all add: demo_busy_collab_def demo_collab_def demo_instances_def demo_instance_def
        hours_for_def normalize_timestamp_def billable_hours_def datetime_sub_def)


end
